theory Spec2Isabelle
  imports Main "HOL-Library.Sublist"
begin

section \<open>Cargo lock file reconciliation (lib/modules/manager/cargo/artifacts.ts)\<close>

text \<open>
  A shallow embedding of \<^verbatim>\<open>cargoUpdate\<close>, \<^verbatim>\<open>cargoUpdatePrecise\<close>,
  \<^verbatim>\<open>updateArtifacts\<close> and \<^verbatim>\<open>updateArtifactsImpl\<close>. The file system, the
  process runner and the imported helpers are not part of artifacts.ts; they are the
  fields of an environment record, each effectful one a function on an abstract world
  \<open>'w\<close> that it may change, so that a resolver may behave differently at every
  invocation. An exception is a value \<open>Inl err\<close>; logging is left out.
\<close>

subsection \<open>Data\<close>

text \<open>The fields of \<^verbatim>\<open>Upgrade\<close> that artifacts.ts reads; each may be undefined.\<close>

record Upgrade =
  depName :: "string option"
  packageName :: "string option"
  lockedVersion :: "string option"
  newVersion :: "string option"
  datasource :: "string option"

text \<open>
  \<^verbatim>\<open>config.isLockFileMaintenance\<close> (undefined is falsy, hence \<open>False\<close>) and
  \<^verbatim>\<open>config.constraints?.rust\<close>.
\<close>

record UpdateArtifactsConfig =
  isLockFileMaintenance :: bool
  constraints_rust :: "string option"

record UpdateArtifact =
  packageFileName :: string
  updatedDeps :: "Upgrade list"
  newPackageFileContent :: string
  config :: UpdateArtifactsConfig

text \<open>A thrown value: its \<^verbatim>\<open>message\<close>, and its \<^verbatim>\<open>stderr\<close> when it has one.\<close>

record thrown =
  message :: string
  stderr :: "string option"

text \<open>
  A Buffer is an object: it has an identity besides its bytes, and \<^verbatim>\<open>===\<close> on two
  Buffers asks whether they are the same object, whatever their bytes.
\<close>

record buffer =
  ident :: nat
  bytes :: string

text \<open>
  One element of the returned array: \<^verbatim>\<open>{file: {type: 'addition', path, contents}}\<close>
  or \<^verbatim>\<open>{artifactError: {lockFile, stderr}}\<close>. The contents are what
  \<^verbatim>\<open>readLocalFile(lockFileName)\<close> returned: a Buffer or null.
\<close>

datatype UpdateArtifactsResult =
  FileAddition string "buffer option"
| ArtifactError string string

text \<open>The options given to \<^verbatim>\<open>exec\<close>; \<^verbatim>\<open>docker: {}\<close> is constant and left out.\<close>

record ExecOptions =
  extraEnv :: "(string \<times> string) list"
  toolConstraints :: "(string \<times> string option) list"

text \<open>
  What a call does to the outside, in order. \<open>Call\<close> marks each entry of
  \<^verbatim>\<open>updateArtifactsImpl\<close> with its \<^verbatim>\<open>updatedDeps\<close> and
  \<^verbatim>\<open>recursionLimit\<close>.
\<close>

datatype event =
  Call "Upgrade list" int
| Find string string
| Read string
| Write string string
| Exec "string list" ExecOptions

record 'w state =
  world :: 'w
  trace :: "event list"

text \<open>
  The imports of artifacts.ts. \<^verbatim>\<open>findLocalSiblingOrParent\<close> returns null as
  \<open>None\<close>; the field \<open>readLocalFile\<close> gives the text of a file, or \<open>None\<close> when it
  cannot be read (how the two ways of calling \<^verbatim>\<open>readLocalFile\<close> hand that text over
  is below, with the effects); \<^verbatim>\<open>extractLockFileContentVersions\<close> returns a Map or
  null; \<^verbatim>\<open>exec\<close> takes one command or an array of commands, here always a list.
\<close>

record 'w env =
  findLocalSiblingOrParent :: "string \<Rightarrow> string \<Rightarrow> 'w \<Rightarrow> string option \<times> 'w"
  readLocalFile :: "string \<Rightarrow> 'w \<Rightarrow> string option \<times> 'w"
  writeLocalFile :: "string \<Rightarrow> string \<Rightarrow> 'w \<Rightarrow> (thrown + unit) \<times> 'w"
  exec :: "string list \<Rightarrow> ExecOptions \<Rightarrow> 'w \<Rightarrow> (thrown + unit) \<times> 'w"
  extractLockFileContentVersions :: "string \<Rightarrow> (string \<rightharpoonup> string list) option"
  getGitEnvironmentVariables :: "string list \<Rightarrow> (string \<times> string) list"
  quote :: "string \<Rightarrow> string"
  TEMPORARY_ERROR :: string
  CrateDatasource_id :: string

subsection \<open>JavaScript values\<close>

text \<open>Truthiness of a \<^verbatim>\<open>string | null | undefined\<close>: the empty string is falsy.\<close>

fun truthy :: "string option \<Rightarrow> bool" where
  "truthy None = False"
| "truthy (Some s) = (s \<noteq> [])"

text \<open>Truthiness of an object or null: every object is truthy, an empty Buffer too.\<close>

fun truthy_object :: "'a option \<Rightarrow> bool" where
  "truthy_object None = False"
| "truthy_object (Some x) = True"

text \<open>
  \<^verbatim>\<open>a === b\<close> for a Buffer \<open>a\<close> and a Buffer or null \<open>b\<close>: the same object.
\<close>

fun strict_equal :: "buffer \<Rightarrow> buffer option \<Rightarrow> bool" where
  "strict_equal a None = False"
| "strict_equal a (Some b) = (ident b = ident a)"

text \<open>
  The text of a value that may be undefined: inside a template literal, and as the
  argument of \<^verbatim>\<open>RegExp.test\<close>, undefined reads \<^verbatim>\<open>undefined\<close>. The same is
  taken for \<^verbatim>\<open>quote(dep.newVersion!)\<close>, whose argument the source asserts to be
  defined.
\<close>

fun interpolate :: "string option \<Rightarrow> string" where
  "interpolate None = ''undefined''"
| "interpolate (Some s) = s"

text \<open>
  Modelled from the spec: \<^verbatim>\<open>regEx\<close> of util/regex is not among the sources. It is
  taken to build the regular expression it is given (the spec's matching of stderr against
  a signature), so \<^verbatim>\<open>regEx(/error: package ID specification/).test(x)\<close> holds exactly
  when the pattern, which has no metacharacter, occurs in the text of \<open>x\<close>.
\<close>

fun occurs_in :: "string \<Rightarrow> string \<Rightarrow> bool" where
  "occurs_in pat [] = (pat = [])"
| "occurs_in pat (c # cs) = (prefix pat (c # cs) \<or> occurs_in pat cs)"

definition regEx_test :: "string option \<Rightarrow> bool" where
  "regEx_test x = occurs_in ''error: package ID specification'' (interpolate x)"

text \<open>
  Modelled from the spec: \<^verbatim>\<open>coerceArray\<close> of util/array is not among the sources.
  It returns the array it is given and the empty array for null or undefined (a missing
  extraction entry is an empty version list).
\<close>

fun coerceArray :: "'a list option \<Rightarrow> 'a list" where
  "coerceArray None = []"
| "coerceArray (Some xs) = xs"

subsection \<open>Effects\<close>

definition findLocalSiblingOrParent_io ::
  "'w env \<Rightarrow> string \<Rightarrow> string \<Rightarrow> 'w state \<Rightarrow> string option \<times> 'w state" where
  "findLocalSiblingOrParent_io env f n s =
     (case findLocalSiblingOrParent env f n (world s) of
        (r, w) \<Rightarrow> (r, \<lparr>world = w, trace = trace s @ [Find f n]\<rparr>))"

text \<open>
  \<^verbatim>\<open>readLocalFile\<close> of util/fs is not among the sources; artifacts.ts calls it in two
  ways. \<^verbatim>\<open>readLocalFile(f)\<close>, without an encoding (lines 96 and 154), returns the
  file as a new Buffer, as Node's \<^verbatim>\<open>fs.readFile\<close> does, or null. The identity of the
  new Buffer is the position of its \<open>Read\<close> event in the trace, so two reads never give
  the same object. \<^verbatim>\<open>readLocalFile(f, 'utf8')\<close> (line 178) returns the text as a
  string, or null.
\<close>

definition readLocalFile_io :: "'w env \<Rightarrow> string \<Rightarrow> 'w state \<Rightarrow> buffer option \<times> 'w state" where
  "readLocalFile_io env f s =
     (case readLocalFile env f (world s) of
        (r, w) \<Rightarrow>
          (map_option (\<lambda>text. \<lparr>ident = length (trace s), bytes = text\<rparr>) r,
           \<lparr>world = w, trace = trace s @ [Read f]\<rparr>))"

definition readLocalFile_utf8_io ::
  "'w env \<Rightarrow> string \<Rightarrow> 'w state \<Rightarrow> string option \<times> 'w state" where
  "readLocalFile_utf8_io env f s =
     (case readLocalFile env f (world s) of
        (r, w) \<Rightarrow> (r, \<lparr>world = w, trace = trace s @ [Read f]\<rparr>))"

definition writeLocalFile_io ::
  "'w env \<Rightarrow> string \<Rightarrow> string \<Rightarrow> 'w state \<Rightarrow> (thrown + unit) \<times> 'w state" where
  "writeLocalFile_io env f c s =
     (case writeLocalFile env f c (world s) of
        (r, w) \<Rightarrow> (r, \<lparr>world = w, trace = trace s @ [Write f c]\<rparr>))"

definition exec_io ::
  "'w env \<Rightarrow> string list \<Rightarrow> ExecOptions \<Rightarrow> 'w state \<Rightarrow> (thrown + unit) \<times> 'w state" where
  "exec_io env cmds opts s =
     (case exec env cmds opts (world s) of
        (r, w) \<Rightarrow> (r, \<lparr>world = w, trace = trace s @ [Exec cmds opts]\<rparr>))"

subsection \<open>cargoUpdate and cargoUpdatePrecise\<close>

definition execOptions :: "'w env \<Rightarrow> string option \<Rightarrow> ExecOptions" where
  "execOptions env constraint =
     \<lparr>extraEnv = getGitEnvironmentVariables env [''cargo''],
      toolConstraints = [(''rust'', constraint)]\<rparr>"

definition cargoUpdate_cmd :: "'w env \<Rightarrow> string \<Rightarrow> bool \<Rightarrow> string" where
  "cargoUpdate_cmd env manifestPath isLockFileMaintenance' =
     (let cmd = ''cargo update --config net.git-fetch-with-cli=true --manifest-path ''
                  @ quote env manifestPath
      in if \<not> isLockFileMaintenance' then cmd @ '' --workspace'' else cmd)"

definition cargoUpdate ::
  "'w env \<Rightarrow> string \<Rightarrow> bool \<Rightarrow> string option \<Rightarrow> 'w state \<Rightarrow> (thrown + unit) \<times> 'w state" where
  "cargoUpdate env manifestPath isLockFileMaintenance' constraint s =
     exec_io env [cargoUpdate_cmd env manifestPath isLockFileMaintenance']
       (execOptions env constraint) s"

definition precise_cmd :: "'w env \<Rightarrow> string \<Rightarrow> Upgrade \<Rightarrow> string" where
  "precise_cmd env manifestPath dep =
     ''cargo update --config net.git-fetch-with-cli=true''
       @ '' --manifest-path '' @ quote env manifestPath
       @ '' --package ''
       @ quote env (interpolate (packageName dep) @ ''@'' @ interpolate (lockedVersion dep))
       @ '' --precise '' @ quote env (interpolate (newVersion dep))"

definition cargoUpdatePrecise_cmds :: "'w env \<Rightarrow> string \<Rightarrow> Upgrade list \<Rightarrow> string list" where
  "cargoUpdatePrecise_cmds env manifestPath deps =
     (''cargo update --config net.git-fetch-with-cli=true''
        @ '' --manifest-path '' @ quote env manifestPath @ '' --workspace'')
     # map (precise_cmd env manifestPath) deps"

definition cargoUpdatePrecise ::
  "'w env \<Rightarrow> string \<Rightarrow> Upgrade list \<Rightarrow> string option \<Rightarrow> 'w state
     \<Rightarrow> (thrown + unit) \<times> 'w state" where
  "cargoUpdatePrecise env manifestPath deps constraint s =
     exec_io env (cargoUpdatePrecise_cmds env manifestPath deps) (execOptions env constraint) s"

subsection \<open>updateArtifactsImpl\<close>

text \<open>Lines 121 to 151: the choice of the resolver strategy and its invocation.\<close>

definition invokeResolver ::
  "'w env \<Rightarrow> UpdateArtifact \<Rightarrow> 'w state \<Rightarrow> (thrown + unit) \<times> 'w state" where
  "invokeResolver env req s =
     (if isLockFileMaintenance (config req)
      then cargoUpdate env (packageFileName req) True (constraints_rust (config req)) s
      else
        let nonCrateDep =
              find (\<lambda>dep. datasource dep \<noteq> Some (CrateDatasource_id env)) (updatedDeps req);
            crateDepWithoutLockedVersion =
              find (\<lambda>dep. \<not> truthy (lockedVersion dep)
                         \<and> datasource dep = Some (CrateDatasource_id env)) (updatedDeps req)
        in if nonCrateDep \<noteq> None \<or> crateDepWithoutLockedVersion \<noteq> None
           then cargoUpdate env (packageFileName req) False (constraints_rust (config req)) s
           else cargoUpdatePrecise env (packageFileName req) (updatedDeps req)
                  (constraints_rust (config req)) s)"

text \<open>Lines 117 to 167: the body of the try block.\<close>

definition tryBlock ::
  "'w env \<Rightarrow> UpdateArtifact \<Rightarrow> string \<Rightarrow> buffer \<Rightarrow> 'w state
     \<Rightarrow> (thrown + UpdateArtifactsResult list option) \<times> 'w state" where
  "tryBlock env req lockFileName existingLockFileContent s =
     (case writeLocalFile_io env (packageFileName req) (newPackageFileContent req) s of
        (Inl err, s1) \<Rightarrow> (Inl err, s1)
      | (Inr _, s1) \<Rightarrow>
          (case invokeResolver env req s1 of
             (Inl err, s2) \<Rightarrow> (Inl err, s2)
           | (Inr _, s2) \<Rightarrow>
               (case readLocalFile_io env lockFileName s2 of
                  (newCargoLockContent, s3) \<Rightarrow>
                    if strict_equal existingLockFileContent newCargoLockContent
                    then (Inr None, s3)
                    else (Inr (Some [FileAddition lockFileName newCargoLockContent]), s3))))"

text \<open>Lines 184 to 190: the upgrades whose target version the lock file does not hold yet.\<close>

definition filterUpdatedDeps :: "'w env \<Rightarrow> string \<Rightarrow> Upgrade list \<Rightarrow> Upgrade list" where
  "filterUpdatedDeps env newCargoLockContent deps =
     (let versions = extractLockFileContentVersions env newCargoLockContent
      in filter (\<lambda>dep.
           \<not> (case newVersion dep of
                 None \<Rightarrow> False
               | Some v \<Rightarrow>
                   v \<in> set (coerceArray
                     (case (versions, packageName dep) of
                        (Some m, Some p) \<Rightarrow> m p
                      | _ \<Rightarrow> None)))) deps)"

definition enter :: "UpdateArtifact \<Rightarrow> int \<Rightarrow> 'w state \<Rightarrow> 'w state" where
  "enter req recursionLimit s = s\<lparr>trace := trace s @ [Call (updatedDeps req) recursionLimit]\<rparr>"

text \<open>
  Lines 91 to 97: the lock file's name and its content. Under a truthiness test TypeScript
  narrows a type with null to the type without; \<open>the\<close> reads the narrowed value, here
  and below only under such a test.
\<close>

definition locate ::
  "'w env \<Rightarrow> UpdateArtifact \<Rightarrow> 'w state \<Rightarrow> (string option \<times> buffer option) \<times> 'w state" where
  "locate env req s =
     (case findLocalSiblingOrParent_io env (packageFileName req) ''Cargo.lock'' s of
        (lockFileName, s1) \<Rightarrow>
          (case (if truthy lockFileName then readLocalFile_io env (the lockFileName) s1
                 else (None, s1)) of
             (existingLockFileContent, s2) \<Rightarrow> ((lockFileName, existingLockFileContent), s2)))"

function updateArtifactsImpl ::
  "'w env \<Rightarrow> UpdateArtifact \<Rightarrow> int \<Rightarrow> 'w state
     \<Rightarrow> (thrown + UpdateArtifactsResult list option) \<times> 'w state" where
  "updateArtifactsImpl env req recursionLimit s =
     (case locate env req (enter req recursionLimit s) of
        ((lockFileName, existingLockFileContent), s2) \<Rightarrow>
     if \<not> truthy_object existingLockFileContent \<or> \<not> truthy lockFileName then (Inr None, s2)
     else if \<not> isLockFileMaintenance (config req) \<and> length (updatedDeps req) = 0
     then (Inr (Some [FileAddition (the lockFileName) existingLockFileContent]), s2)
     else
       (case tryBlock env req (the lockFileName) (the existingLockFileContent) s2 of
          (Inr r, s3) \<Rightarrow> (Inr r, s3)
        | (Inl err, s3) \<Rightarrow>
            if message err = TEMPORARY_ERROR env then (Inl err, s3)
            else
              (case readLocalFile_utf8_io env (the lockFileName) s3 of
                 (newCargoLockContent, s4) \<Rightarrow>
                   if 0 < recursionLimit \<and> truthy newCargoLockContent \<and> regEx_test (stderr err)
                   then
                     (let newUpdatedDeps =
                            filterUpdatedDeps env (the newCargoLockContent) (updatedDeps req)
                      in if length newUpdatedDeps < length (updatedDeps req)
                         then updateArtifactsImpl env (req\<lparr>updatedDeps := newUpdatedDeps\<rparr>)
                                (recursionLimit - 1) s4
                         else (Inr (Some [ArtifactError (the lockFileName) (message err)]), s4))
                   else (Inr (Some [ArtifactError (the lockFileName) (message err)]), s4))))"
  by pat_completeness auto
termination
  by (relation "measure (\<lambda>(env, req, recursionLimit, s). nat recursionLimit)") auto

declare updateArtifactsImpl.simps [simp del]

definition updateArtifacts ::
  "'w env \<Rightarrow> UpdateArtifact \<Rightarrow> 'w state
     \<Rightarrow> (thrown + UpdateArtifactsResult list option) \<times> 'w state" where
  "updateArtifacts env updateArtifact s = updateArtifactsImpl env updateArtifact 10 s"

subsection \<open>Reading a trace\<close>

text \<open>The entries of \<^verbatim>\<open>updateArtifactsImpl\<close> in a trace, in order.\<close>

fun call_of :: "event \<Rightarrow> (Upgrade list \<times> int) option" where
  "call_of (Call deps n) = Some (deps, n)"
| "call_of _ = None"

definition calls :: "event list \<Rightarrow> (Upgrade list \<times> int) list" where
  "calls tr = List.map_filter call_of tr"

text \<open>
  One retry, from the entry \<open>a\<close> to the entry \<open>b\<close>: the budget was positive and is one
  less, and the requested upgrades are fewer and a strict subset.
\<close>

definition narrows :: "Upgrade list \<times> int \<Rightarrow> Upgrade list \<times> int \<Rightarrow> bool" where
  "narrows a b =
     (0 < snd a \<and> snd b = snd a - 1 \<and> length (fst b) < length (fst a)
      \<and> set (fst b) \<subset> set (fst a))"

subsection \<open>Environments\<close>



text \<open>
  A small world for concrete runs: the world is the content of the one lock file
  \<^verbatim>\<open>Cargo.lock\<close>; the arguments are what the search for the lock file returns, what
  writing the manifest returns, and what the resolver does to the lock file. The
  extractor knows the two lock files of the example, with \<^verbatim>\<open>foo\<close> at 1.0.0 and
  at 1.1.0.
\<close>

definition example_env ::
  "string option \<Rightarrow> thrown + unit \<Rightarrow> (string \<Rightarrow> (thrown + unit) \<times> string) \<Rightarrow> string env" where
  "example_env lock written resolver =
     \<lparr>findLocalSiblingOrParent = (\<lambda>f n w. (lock, w)),
      readLocalFile = (\<lambda>f w. (Some w, w)),
      writeLocalFile = (\<lambda>f c w. (written, w)),
      exec = (\<lambda>cmds opts w. resolver w),
      extractLockFileContentVersions =
        (\<lambda>c. if c = ''foo 1.1.0'' then Some [''foo'' \<mapsto> [''1.1.0'']]
             else if c = ''foo 1.0.0'' then Some [''foo'' \<mapsto> [''1.0.0'']]
             else None),
      getGitEnvironmentVariables = (\<lambda>tools. []),
      quote = (\<lambda>x. x),
      TEMPORARY_ERROR = ''temporary-error'',
      CrateDatasource_id = ''crate''\<rparr>"

definition conflict :: thrown where
  "conflict =
     \<lparr>message = ''Command failed: cargo update'',
      stderr = Some ''error: package ID specification `foo@1.0.0` did not match any packages''\<rparr>"

definition foo :: Upgrade where
  "foo = \<lparr>depName = Some ''foo'', packageName = Some ''foo'', lockedVersion = Some ''1.0.0'',
          newVersion = Some ''1.1.0'', datasource = Some ''crate''\<rparr>"

definition bar :: Upgrade where
  "bar = \<lparr>depName = Some ''bar'', packageName = Some ''bar'', lockedVersion = Some ''0.2.0'',
          newVersion = Some ''0.3.0'', datasource = Some ''crate''\<rparr>"

definition git_dep :: Upgrade where
  "git_dep = \<lparr>depName = Some ''baz'', packageName = Some ''baz'', lockedVersion = None,
          newVersion = Some ''2.0.0'', datasource = Some ''git-refs''\<rparr>"

definition example_request :: "Upgrade list \<Rightarrow> bool \<Rightarrow> UpdateArtifact" where
  "example_request deps maintenance =
     \<lparr>packageFileName = ''Cargo.toml'', updatedDeps = deps, newPackageFileContent = ''X'',
      config = \<lparr>isLockFileMaintenance = maintenance, constraints_rust = None\<rparr>\<rparr>"

definition start :: "string state" where
  "start = \<lparr>world = ''foo 1.0.0'', trace = []\<rparr>"

lemmas example_defs =
  example_env_def conflict_def foo_def example_request_def start_def

lemmas run_defs =
  updateArtifacts_def locate_def enter_def tryBlock_def invokeResolver_def
  cargoUpdatePrecise_def cargoUpdate_def exec_io_def readLocalFile_io_def
  readLocalFile_utf8_io_def writeLocalFile_io_def findLocalSiblingOrParent_io_def regEx_test_def filterUpdatedDeps_def

section \<open>Properties\<close>

subsection \<open>Traces\<close>

lemma calls_append [simp]: "calls (xs @ ys) = calls xs @ calls ys"
  by (simp add: calls_def map_filter_def)

lemma calls_simps [simp]:
  "calls [] = []"
  "calls (Call d n # tr) = (d, n) # calls tr"
  "calls (Find f g # tr) = calls tr"
  "calls (Read f # tr) = calls tr"
  "calls (Write f c # tr) = calls tr"
  "calls (Exec cmds opts # tr) = calls tr"
  by (simp_all add: calls_def map_filter_def)

lemma locate_trace:
  assumes "locate env req s = ((lf, ex), s2)"
  shows "trace s2 = trace s @ Find (packageFileName req) ''Cargo.lock''
                      # (if truthy lf then [Read (the lf)] else [])"
  using assms
  by (auto simp: locate_def findLocalSiblingOrParent_io_def readLocalFile_io_def
           split: prod.splits if_splits)

lemma readLocalFile_io_trace:
  "readLocalFile_io env f s = (r, s') \<Longrightarrow> trace s' = trace s @ [Read f]"
  by (auto simp: readLocalFile_io_def split: prod.splits)

lemma readLocalFile_utf8_io_trace:
  "readLocalFile_utf8_io env f s = (r, s') \<Longrightarrow> trace s' = trace s @ [Read f]"
  by (auto simp: readLocalFile_utf8_io_def split: prod.splits)

lemma invokeResolver_trace:
  "invokeResolver env req s = (r, s') \<Longrightarrow> \<exists>cmds opts. trace s' = trace s @ [Exec cmds opts]"
  by (auto simp: invokeResolver_def cargoUpdate_def cargoUpdatePrecise_def exec_io_def Let_def
           split: prod.splits if_splits)

lemma tryBlock_trace:
  assumes "tryBlock env req l c s = (r, s')"
  shows "\<exists>evs. trace s' = trace s @ Write (packageFileName req) (newPackageFileContent req) # evs
           \<and> calls evs = []"
  using assms
  by (auto simp: tryBlock_def writeLocalFile_io_def 
           split: prod.splits sum.splits if_splits
           dest!: invokeResolver_trace readLocalFile_io_trace)

subsection \<open>Retries\<close>

lemma filterUpdatedDeps_shrinks:
  assumes "length (filterUpdatedDeps env c deps) < length deps"
  shows "set (filterUpdatedDeps env c deps) \<subset> set deps"
proof -
  let ?P = "\<lambda>dep. \<not> (case newVersion dep of None \<Rightarrow> False
               | Some v \<Rightarrow> v \<in> set (coerceArray
                     (case (extractLockFileContentVersions env c, packageName dep) of
                        (Some m, Some p) \<Rightarrow> m p | _ \<Rightarrow> None)))"
  have eq: "filterUpdatedDeps env c deps = filter ?P deps"
    by (simp add: filterUpdatedDeps_def)
  from assms eq have "length (filter ?P deps) < length deps" by simp
  then have "filter ?P deps \<noteq> deps" by auto
  then have "\<not> (\<forall>x\<in>set deps. ?P x)" unfolding filter_id_conv .
  then obtain x where "x \<in> set deps" "\<not> ?P x" by blast
  then have "x \<notin> set (filter ?P deps)" by simp
  with \<open>x \<in> set deps\<close> eq show ?thesis by auto
qed

lemma impl_calls:
  "\<exists>evs. trace (snd (updateArtifactsImpl env req n s)) = trace s @ evs
       \<and> successively narrows (calls evs)
       \<and> calls evs \<noteq> [] \<and> hd (calls evs) = (updatedDeps req, n)"
proof (induction env req n s rule: updateArtifactsImpl.induct)
  case (1 env req n s)
  obtain lf ex s2 where loc: "locate env req (enter req n s) = ((lf, ex), s2)"
    by (metis prod.exhaust)
  have tr2: "trace s2 = trace s @ Call (updatedDeps req) n # Find (packageFileName req) ''Cargo.lock''
                      # (if truthy lf then [Read (the lf)] else [])"
    using locate_trace[OF loc] by (simp add: enter_def)
  obtain r s3 where tb: "tryBlock env req (the lf) (the ex) s2 = (r, s3)"
    by (metis prod.exhaust)
  from tryBlock_trace[OF tb] obtain evs3 where
    tr3: "trace s3 = trace s2 @ Write (packageFileName req) (newPackageFileContent req) # evs3"
    and c3: "calls evs3 = []" by blast
  obtain nc s4 where rd: "readLocalFile_utf8_io env (the lf) s3 = (nc, s4)"
    by (metis prod.exhaust)
  have tr4: "trace s4 = trace s3 @ [Read (the lf)]"
    using readLocalFile_utf8_io_trace[OF rd] .
  let ?new = "filterUpdatedDeps env (the nc) (updatedDeps req)"
  show ?case
  proof (cases "truthy_object ex \<and> truthy lf \<and> (isLockFileMaintenance (config req) \<or> updatedDeps req \<noteq> [])
                \<and> (\<exists>err. r = Inl err \<and> message err \<noteq> TEMPORARY_ERROR env \<and> regEx_test (stderr err))
                \<and> 0 < n \<and> truthy nc \<and> length ?new < length (updatedDeps req)")
    case True
    then obtain err where r: "r = Inl err" and ne: "message err \<noteq> TEMPORARY_ERROR env"
      and re: "regEx_test (stderr err)" by blast
    have unfold: "updateArtifactsImpl env req n s
                  = updateArtifactsImpl env (req\<lparr>updatedDeps := ?new\<rparr>) (n - 1) s4"
      using True r ne re loc tb rd
      by (subst updateArtifactsImpl.simps) (auto simp: Let_def)
    have IH: "\<exists>evs. trace (snd (updateArtifactsImpl env (req\<lparr>updatedDeps := ?new\<rparr>) (n - 1) s4))
                 = trace s4 @ evs \<and> successively narrows (calls evs) \<and> calls evs \<noteq> []
               \<and> hd (calls evs) = (updatedDeps (req\<lparr>updatedDeps := ?new\<rparr>), n - 1)"
      using True r ne re
      by (intro "1.IH"[OF loc[symmetric] refl _ _ tb[symmetric] r ne rd[symmetric] _ refl]) auto
    then obtain evs where
      e1: "trace (snd (updateArtifactsImpl env (req\<lparr>updatedDeps := ?new\<rparr>) (n - 1) s4)) = trace s4 @ evs"
      and e2: "successively narrows (calls evs)" and e3: "calls evs \<noteq> []"
      and e4: "hd (calls evs) = (?new, n - 1)" by auto
    have nar: "narrows (updatedDeps req, n) (?new, n - 1)"
      using True filterUpdatedDeps_shrinks[of env "the nc" "updatedDeps req"]
      by (simp add: narrows_def)
    let ?evs = "Call (updatedDeps req) n # Find (packageFileName req) ''Cargo.lock''
                  # (if truthy lf then [Read (the lf)] else [])
                  @ Write (packageFileName req) (newPackageFileContent req) # evs3
                  @ [Read (the lf)] @ evs"
    have "trace (snd (updateArtifactsImpl env req n s)) = trace s @ ?evs"
      using unfold e1 tr4 tr3 tr2 by simp
    moreover have "calls ?evs = (updatedDeps req, n) # calls evs"
      using c3 by simp
    moreover have "successively narrows ((updatedDeps req, n) # calls evs)"
      using e2 e3 e4 nar by (cases "calls evs") auto
    ultimately show ?thesis by (metis list.sel(1) list.distinct(1))
  next
    case False
    have "\<exists>res s'. updateArtifactsImpl env req n s = (res, s') \<and> s' \<in> {s2, s3, s4}"
      using False loc tb rd
      by (subst updateArtifactsImpl.simps) (auto simp: Let_def split: sum.splits)
    then obtain res s' where u: "updateArtifactsImpl env req n s = (res, s')"
      and s': "s' \<in> {s2, s3, s4}" by blast
    have "\<exists>evs. trace s' = trace s @ evs \<and> calls evs = [(updatedDeps req, n)]"
      using s' tr2 tr3 tr4 c3 by auto
    then show ?thesis using u by auto
  qed
qed



subsection \<open>One attempt\<close>

text \<open>What a call does once the lock file is found and there is something to update.\<close>

lemma impl_after_locate:
  assumes "locate env req (enter req n s) = ((Some l, Some c), s2)"
    and "l \<noteq> []"
    and "isLockFileMaintenance (config req) \<or> updatedDeps req \<noteq> []"
  shows "updateArtifactsImpl env req n s =
     (case tryBlock env req l c s2 of
        (Inr r, s3) \<Rightarrow> (Inr r, s3)
      | (Inl err, s3) \<Rightarrow>
          if message err = TEMPORARY_ERROR env then (Inl err, s3)
          else
            (case readLocalFile_utf8_io env l s3 of
               (nc, s4) \<Rightarrow>
                 if 0 < n \<and> truthy nc \<and> regEx_test (stderr err)
                    \<and> length (filterUpdatedDeps env (the nc) (updatedDeps req))
                        < length (updatedDeps req)
                 then updateArtifactsImpl env
                        (req\<lparr>updatedDeps := filterUpdatedDeps env (the nc) (updatedDeps req)\<rparr>)
                        (n - 1) s4
                 else (Inr (Some [ArtifactError l (message err)]), s4)))"
  using assms
  by (subst updateArtifactsImpl.simps)
     (auto simp: Let_def split: prod.splits sum.splits)

subsection \<open>The results of a call\<close>

text \<open>
  C7. When the search finds no \<^verbatim>\<open>Cargo.lock\<close> (null or an empty name), or the lock
  file found cannot be read (null), \<^verbatim>\<open>updateArtifactsImpl\<close> returns null, and all it
  has done is to search and, if a lock file was found, to read it: the manifest is not
  written and no command is run.
\<close>

theorem no_lock_file_short_circuit:
  assumes "findLocalSiblingOrParent env (packageFileName req) ''Cargo.lock'' (world s) = (lf, w1)"
    and "\<not> truthy lf \<or> fst (readLocalFile env (the lf) w1) = None"
  shows "fst (updateArtifactsImpl env req n s) = Inr None
       \<and> trace (snd (updateArtifactsImpl env req n s)) =
           trace s @ Call (updatedDeps req) n # Find (packageFileName req) ''Cargo.lock''
             # (if truthy lf then [Read (the lf)] else [])"
  using assms
  by (subst (1 2) updateArtifactsImpl.simps)
     (auto simp: locate_def enter_def findLocalSiblingOrParent_io_def readLocalFile_io_def
           split: prod.splits)

theorem no_lock_file_short_circuit_witness:
  "findLocalSiblingOrParent (example_env None (Inr ()) (\<lambda>w. (Inr (), w)))
      (packageFileName (example_request [foo] False)) ''Cargo.lock'' (world start)
     = (None, ''foo 1.0.0'')
   \<and> fst (updateArtifactsImpl (example_env None (Inr ()) (\<lambda>w. (Inr (), w)))
            (example_request [foo] False) 10 start) = Inr None
   \<and> trace (snd (updateArtifactsImpl (example_env None (Inr ()) (\<lambda>w. (Inr (), w)))
            (example_request [foo] False) 10 start))
       = [Call [foo] 10, Find ''Cargo.toml'' ''Cargo.lock'']"
proof -
  have h: "findLocalSiblingOrParent (example_env None (Inr ()) (\<lambda>w. (Inr (), w)))
      (packageFileName (example_request [foo] False)) ''Cargo.lock'' (world start)
     = (None, ''foo 1.0.0'')"
    by (simp add: example_defs)
  show ?thesis
    using h no_lock_file_short_circuit [OF h, of 10]
    by (simp add: example_request_def start_def)
qed

text \<open>
  A Buffer read after the lock file's own is another object, so the comparison of line 155
  fails: once the resolver has succeeded, the try block never returns null.
\<close>

lemma tryBlock_never_unchanged:
  assumes "ident c < length (trace s)" and "tryBlock env req l c s = (Inr r, s')"
  shows "r \<noteq> None"
proof -
  from assms(2) obtain s1 s2 nb where
    w: "writeLocalFile_io env (packageFileName req) (newPackageFileContent req) s = (Inr (), s1)"
    and iv: "invokeResolver env req s1 = (Inr (), s2)"
    and rd: "readLocalFile_io env l s2 = (nb, s')"
    and r: "r = (if strict_equal c nb then None else Some [FileAddition l nb])"
    by (auto simp: tryBlock_def split: prod.splits sum.splits if_splits)
  have "length (trace s) \<le> length (trace s1)"
    using w by (auto simp: writeLocalFile_io_def split: prod.splits)
  moreover have "length (trace s1) \<le> length (trace s2)"
    using invokeResolver_trace [OF iv] by auto
  ultimately have len: "ident c < length (trace s2)"
    using assms(1) by simp
  have "\<not> strict_equal c nb"
  proof (cases nb)
    case None
    then show ?thesis by simp
  next
    case (Some b)
    then have "ident b = length (trace s2)"
      using rd by (auto simp: readLocalFile_io_def split: prod.splits)
    with len Some show ?thesis by simp
  qed
  with r show ?thesis by simp
qed

lemma locate_ident:
  assumes "locate env req s = ((lf, Some c), s2)"
  shows "ident c < length (trace s2)"
  using assms
  by (auto simp: locate_def findLocalSiblingOrParent_io_def readLocalFile_io_def
           split: prod.splits if_splits)

lemma resolved_lock_file_is_always_added:
  assumes "locate env req (enter req n s) = ((Some l, Some c), s2)" and "l \<noteq> []"
    and "isLockFileMaintenance (config req) \<or> updatedDeps req \<noteq> []"
    and "tryBlock env req l c s2 = (Inr r, s3)"
  shows "r \<noteq> None \<and> updateArtifactsImpl env req n s = (Inr r, s3)"
  using tryBlock_never_unchanged [OF locate_ident [OF assms(1)] assms(4)] assms(4)
  by (simp add: impl_after_locate [OF assms(1-3)])

text \<open>
  C6 does not hold of the code. Lines 96 and 154 read the lock file without the encoding
  that line 178 gives, so both values are Buffers and \<^verbatim>\<open>===\<close> compares two
  different objects. Here the resolver succeeds and leaves the lock file as it was,
  \<^verbatim>\<open>foo 1.0.0\<close> before and after, and the call returns a file addition instead of
  null.
\<close>

theorem unchanged_lock_file_is_added:
  "map_option bytes
     (snd (fst (locate (example_env (Some ''Cargo.lock'') (Inr ()) (\<lambda>w. (Inr (), w)))
                  (example_request [foo] False) (enter (example_request [foo] False) 10 start))))
     = Some ''foo 1.0.0''
   \<and> updateArtifacts (example_env (Some ''Cargo.lock'') (Inr ()) (\<lambda>w. (Inr (), w)))
       (example_request [foo] False) start
     = (Inr (Some [FileAddition ''Cargo.lock'' (Some \<lparr>ident = 5, bytes = ''foo 1.0.0''\<rparr>)]),
        \<lparr>world = ''foo 1.0.0'',
         trace = [Call [foo] 10, Find ''Cargo.toml'' ''Cargo.lock'', Read ''Cargo.lock'',
                  Write ''Cargo.toml'' ''X'',
                  Exec [''cargo update --config net.git-fetch-with-cli=true --manifest-path Cargo.toml --workspace'',
                        ''cargo update --config net.git-fetch-with-cli=true --manifest-path Cargo.toml --package foo@1.0.0 --precise 1.1.0'']
                    \<lparr>extraEnv = [], toolConstraints = [(''rust'', None)]\<rparr>,
                  Read ''Cargo.lock'']\<rparr>)"
  by (simp add: run_defs example_defs updateArtifactsImpl.simps execOptions_def
        cargoUpdatePrecise_cmds_def precise_cmd_def)

lemma tryBlock_calls:
  assumes "tryBlock env req l c s = (r, s')"
  shows "calls (trace s') = calls (trace s)"
  using tryBlock_trace [OF assms] by auto

lemma locate_calls:
  assumes "locate env req (enter req n s) = ((lf, ex), s2)"
  shows "calls (trace s2) = calls (trace s) @ [(updatedDeps req, n)]"
  using locate_trace [OF assms] by (simp add: enter_def)

text \<open>
  C4. When the try block fails with an error whose message is \<^verbatim>\<open>TEMPORARY_ERROR\<close>,
  the call throws that very error, whatever the budget and whatever the error's stderr.
  The state is the one the failure left: nothing is read afterwards, there is no retry
  (the trace gains the one entry of this call) and no artifact error.
\<close>

theorem fatal_error_is_rethrown:
  assumes "locate env req (enter req n s) = ((Some l, Some c), s2)"
    and "l \<noteq> []"
    and "isLockFileMaintenance (config req) \<or> updatedDeps req \<noteq> []"
    and "tryBlock env req l c s2 = (Inl err, s3)"
    and "message err = TEMPORARY_ERROR env"
  shows "updateArtifactsImpl env req n s = (Inl err, s3)
       \<and> calls (trace s3) = calls (trace s) @ [(updatedDeps req, n)]"
  using assms(4,5) tryBlock_calls [OF assms(4)] locate_calls [OF assms(1)]
  by (simp add: impl_after_locate [OF assms(1-3)])

theorem fatal_error_is_rethrown_witness:
  "updateArtifactsImpl
     (example_env (Some ''Cargo.lock'') (Inr ())
        (\<lambda>w. (Inl \<lparr>message = ''temporary-error'', stderr = stderr conflict\<rparr>, ''foo 1.1.0'')))
     (example_request [foo] False) 10 start
   = (Inl \<lparr>message = ''temporary-error'', stderr = stderr conflict\<rparr>,
      \<lparr>world = ''foo 1.1.0'',
       trace = [Call [foo] 10, Find ''Cargo.toml'' ''Cargo.lock'', Read ''Cargo.lock'',
                Write ''Cargo.toml'' ''X'',
                Exec [''cargo update --config net.git-fetch-with-cli=true --manifest-path Cargo.toml --workspace'',
                      ''cargo update --config net.git-fetch-with-cli=true --manifest-path Cargo.toml --package foo@1.0.0 --precise 1.1.0'']
                  \<lparr>extraEnv = [], toolConstraints = [(''rust'', None)]\<rparr>]\<rparr>)"
proof -
  let ?err = "\<lparr>message = ''temporary-error'', stderr = stderr conflict\<rparr>"
  let ?env = "example_env (Some ''Cargo.lock'') (Inr ()) (\<lambda>w. (Inl ?err, ''foo 1.1.0''))"
  let ?req = "example_request [foo] False"
  let ?t2 = "[Call [foo] 10, Find ''Cargo.toml'' ''Cargo.lock'', Read ''Cargo.lock'']"
  let ?t3 = "?t2 @ [Write ''Cargo.toml'' ''X'',
                Exec [''cargo update --config net.git-fetch-with-cli=true --manifest-path Cargo.toml --workspace'',
                      ''cargo update --config net.git-fetch-with-cli=true --manifest-path Cargo.toml --package foo@1.0.0 --precise 1.1.0'']
                  \<lparr>extraEnv = [], toolConstraints = [(''rust'', None)]\<rparr>]"
  have h1: "locate ?env ?req (enter ?req 10 start)
              = ((Some ''Cargo.lock'', Some \<lparr>ident = 2, bytes = ''foo 1.0.0''\<rparr>),
                 \<lparr>world = ''foo 1.0.0'', trace = ?t2\<rparr>)"
    by (simp add: run_defs example_defs)
  have h4: "isLockFileMaintenance (config ?req) \<or> updatedDeps ?req \<noteq> []"
    by (simp add: example_defs)
  have h5: "tryBlock ?env ?req ''Cargo.lock'' \<lparr>ident = 2, bytes = ''foo 1.0.0''\<rparr>
              \<lparr>world = ''foo 1.0.0'', trace = ?t2\<rparr>
              = (Inl ?err, \<lparr>world = ''foo 1.1.0'', trace = ?t3\<rparr>)"
    by (simp add: run_defs example_defs execOptions_def cargoUpdatePrecise_cmds_def precise_cmd_def)
  have h6: "message ?err = TEMPORARY_ERROR ?env"
    by (simp add: example_defs)
  show ?thesis
    using fatal_error_is_rethrown [OF h1 _ h4 h5 h6]
    by simp
qed

text \<open>
  C3. After a failure that is not fatal the lock file is read again. When that content is
  null or empty, or the error's stderr lacks \<^verbatim>\<open>error: package ID specification\<close>,
  the call returns (it does not throw) one artifact error with the lock file's path and
  the error's message, and does not retry.
\<close>

theorem unrecoverable_failure_is_artifact_error:
  assumes "locate env req (enter req n s) = ((Some l, Some c), s2)"
    and "l \<noteq> []"
    and "isLockFileMaintenance (config req) \<or> updatedDeps req \<noteq> []"
    and "tryBlock env req l c s2 = (Inl err, s3)"
    and "message err \<noteq> TEMPORARY_ERROR env"
    and "readLocalFile_utf8_io env l s3 = (newCargoLockContent, s4)"
    and "\<not> truthy newCargoLockContent \<or> \<not> regEx_test (stderr err)"
  shows "updateArtifactsImpl env req n s = (Inr (Some [ArtifactError l (message err)]), s4)
       \<and> calls (trace s4) = calls (trace s) @ [(updatedDeps req, n)]"
  using assms(4-7) tryBlock_calls [OF assms(4)] locate_calls [OF assms(1)]
    readLocalFile_utf8_io_trace [OF assms(6)]
  by (auto simp add: impl_after_locate [OF assms(1-3)])

theorem unrecoverable_failure_is_artifact_error_witness:
  "updateArtifactsImpl
     (example_env (Some ''Cargo.lock'') (Inr ())
        (\<lambda>w. (Inl \<lparr>message = ''Command failed'', stderr = Some ''error: no matching package''\<rparr>, w)))
     (example_request [foo] False) 10 start
   = (Inr (Some [ArtifactError ''Cargo.lock'' ''Command failed'']),
      \<lparr>world = ''foo 1.0.0'',
       trace = [Call [foo] 10, Find ''Cargo.toml'' ''Cargo.lock'', Read ''Cargo.lock'',
                Write ''Cargo.toml'' ''X'',
                Exec [''cargo update --config net.git-fetch-with-cli=true --manifest-path Cargo.toml --workspace'',
                      ''cargo update --config net.git-fetch-with-cli=true --manifest-path Cargo.toml --package foo@1.0.0 --precise 1.1.0'']
                  \<lparr>extraEnv = [], toolConstraints = [(''rust'', None)]\<rparr>,
                Read ''Cargo.lock'']\<rparr>)"
proof -
  let ?err = "\<lparr>message = ''Command failed'', stderr = Some ''error: no matching package''\<rparr>"
  let ?env = "example_env (Some ''Cargo.lock'') (Inr ()) (\<lambda>w. (Inl ?err, w))"
  let ?req = "example_request [foo] False"
  let ?t2 = "[Call [foo] 10, Find ''Cargo.toml'' ''Cargo.lock'', Read ''Cargo.lock'']"
  let ?t3 = "?t2 @ [Write ''Cargo.toml'' ''X'',
                Exec [''cargo update --config net.git-fetch-with-cli=true --manifest-path Cargo.toml --workspace'',
                      ''cargo update --config net.git-fetch-with-cli=true --manifest-path Cargo.toml --package foo@1.0.0 --precise 1.1.0'']
                  \<lparr>extraEnv = [], toolConstraints = [(''rust'', None)]\<rparr>]"
  have h1: "locate ?env ?req (enter ?req 10 start)
              = ((Some ''Cargo.lock'', Some \<lparr>ident = 2, bytes = ''foo 1.0.0''\<rparr>),
                 \<lparr>world = ''foo 1.0.0'', trace = ?t2\<rparr>)"
    by (simp add: run_defs example_defs)
  have h4: "isLockFileMaintenance (config ?req) \<or> updatedDeps ?req \<noteq> []"
    by (simp add: example_defs)
  have h5: "tryBlock ?env ?req ''Cargo.lock'' \<lparr>ident = 2, bytes = ''foo 1.0.0''\<rparr>
              \<lparr>world = ''foo 1.0.0'', trace = ?t2\<rparr>
              = (Inl ?err, \<lparr>world = ''foo 1.0.0'', trace = ?t3\<rparr>)"
    by (simp add: run_defs example_defs execOptions_def cargoUpdatePrecise_cmds_def precise_cmd_def)
  have h6: "message ?err \<noteq> TEMPORARY_ERROR ?env"
    by (simp add: example_defs)
  have h7: "readLocalFile_utf8_io ?env ''Cargo.lock'' \<lparr>world = ''foo 1.0.0'', trace = ?t3\<rparr>
              = (Some ''foo 1.0.0'', \<lparr>world = ''foo 1.0.0'', trace = ?t3 @ [Read ''Cargo.lock'']\<rparr>)"
    by (simp add: run_defs example_defs)
  have h8: "\<not> truthy (Some ''foo 1.0.0'') \<or> \<not> regEx_test (stderr ?err)"
    by (simp add: regEx_test_def)
  show ?thesis
    using unrecoverable_failure_is_artifact_error [OF h1 _ h4 h5 h6 h7 h8]
    by simp
qed

text \<open>
  C9. When a failure with the recoverable signature is followed by a lock file content
  that leaves no upgrade after filtering, and maintenance mode is off, the call retries
  with the empty list; the retry finds the lock file, reads it, and returns its content
  as a file addition. It writes nothing and runs no command.
\<close>

theorem emptied_request_returns_lock_file:
  assumes "locate env req (enter req n s) = ((Some l, Some c), s2)"
    and "l \<noteq> []"
    and "\<not> isLockFileMaintenance (config req)" and "updatedDeps req \<noteq> []"
    and "tryBlock env req l c s2 = (Inl err, s3)"
    and "message err \<noteq> TEMPORARY_ERROR env" and "regEx_test (stderr err)"
    and "readLocalFile_utf8_io env l s3 = (Some nc, s4)" and "nc \<noteq> []" and "0 < n"
    and "filterUpdatedDeps env nc (updatedDeps req) = []"
    and "locate env (req\<lparr>updatedDeps := []\<rparr>) (enter (req\<lparr>updatedDeps := []\<rparr>) (n - 1) s4)
           = ((Some l', Some c'), s5)"
    and "l' \<noteq> []"
  shows "updateArtifactsImpl env req n s = (Inr (Some [FileAddition l' (Some c')]), s5)
       \<and> trace s5 = trace s4 @ [Call [] (n - 1), Find (packageFileName req) ''Cargo.lock'', Read l']"
proof -
  have first: "updateArtifactsImpl env req n s
                 = updateArtifactsImpl env (req\<lparr>updatedDeps := []\<rparr>) (n - 1) s4"
    using assms(4-11) by (simp add: impl_after_locate [OF assms(1,2)] assms(3))
  have second: "updateArtifactsImpl env (req\<lparr>updatedDeps := []\<rparr>) (n - 1) s4
                 = (Inr (Some [FileAddition l' (Some c')]), s5)"
    using assms(3,12,13) by (subst updateArtifactsImpl.simps) simp
  have "trace s5 = trace s4 @ [Call [] (n - 1), Find (packageFileName req) ''Cargo.lock'', Read l']"
    using locate_trace [OF assms(12)] assms(13) by (simp add: enter_def)
  with first second show ?thesis by simp
qed

theorem emptied_request_returns_lock_file_witness:
  "updateArtifactsImpl
     (example_env (Some ''Cargo.lock'') (Inr ()) (\<lambda>w. (Inl conflict, ''foo 1.1.0'')))
     (example_request [foo] False) 10 start
   = (Inr (Some [FileAddition ''Cargo.lock'' (Some \<lparr>ident = 8, bytes = ''foo 1.1.0''\<rparr>)]),
      \<lparr>world = ''foo 1.1.0'',
       trace = [Call [foo] 10, Find ''Cargo.toml'' ''Cargo.lock'', Read ''Cargo.lock'',
                Write ''Cargo.toml'' ''X'',
                Exec [''cargo update --config net.git-fetch-with-cli=true --manifest-path Cargo.toml --workspace'',
                      ''cargo update --config net.git-fetch-with-cli=true --manifest-path Cargo.toml --package foo@1.0.0 --precise 1.1.0'']
                  \<lparr>extraEnv = [], toolConstraints = [(''rust'', None)]\<rparr>,
                Read ''Cargo.lock'',
                Call [] 9, Find ''Cargo.toml'' ''Cargo.lock'', Read ''Cargo.lock'']\<rparr>)"
proof -
  let ?env = "example_env (Some ''Cargo.lock'') (Inr ()) (\<lambda>w. (Inl conflict, ''foo 1.1.0''))"
  let ?req = "example_request [foo] False"
  let ?t2 = "[Call [foo] 10, Find ''Cargo.toml'' ''Cargo.lock'', Read ''Cargo.lock'']"
  let ?t3 = "?t2 @ [Write ''Cargo.toml'' ''X'',
                Exec [''cargo update --config net.git-fetch-with-cli=true --manifest-path Cargo.toml --workspace'',
                      ''cargo update --config net.git-fetch-with-cli=true --manifest-path Cargo.toml --package foo@1.0.0 --precise 1.1.0'']
                  \<lparr>extraEnv = [], toolConstraints = [(''rust'', None)]\<rparr>]"
  let ?t4 = "?t3 @ [Read ''Cargo.lock'']"
  let ?t5 = "?t4 @ [Call [] 9, Find ''Cargo.toml'' ''Cargo.lock'', Read ''Cargo.lock'']"
  have h1: "locate ?env ?req (enter ?req 10 start)
              = ((Some ''Cargo.lock'', Some \<lparr>ident = 2, bytes = ''foo 1.0.0''\<rparr>),
                 \<lparr>world = ''foo 1.0.0'', trace = ?t2\<rparr>)"
    by (simp add: run_defs example_defs)
  have h4: "\<not> isLockFileMaintenance (config ?req)" and h5: "updatedDeps ?req \<noteq> []"
    by (simp_all add: example_defs)
  have h6: "tryBlock ?env ?req ''Cargo.lock'' \<lparr>ident = 2, bytes = ''foo 1.0.0''\<rparr>
              \<lparr>world = ''foo 1.0.0'', trace = ?t2\<rparr>
              = (Inl conflict, \<lparr>world = ''foo 1.1.0'', trace = ?t3\<rparr>)"
    by (simp add: run_defs example_defs execOptions_def cargoUpdatePrecise_cmds_def precise_cmd_def)
  have h7: "message conflict \<noteq> TEMPORARY_ERROR ?env" and h8: "regEx_test (stderr conflict)"
    by (simp_all add: example_defs regEx_test_def)
  have h9: "readLocalFile_utf8_io ?env ''Cargo.lock'' \<lparr>world = ''foo 1.1.0'', trace = ?t3\<rparr>
              = (Some ''foo 1.1.0'', \<lparr>world = ''foo 1.1.0'', trace = ?t4\<rparr>)"
    by (simp add: run_defs example_defs)
  have h12: "filterUpdatedDeps ?env ''foo 1.1.0'' (updatedDeps ?req) = []"
    by (simp add: run_defs example_defs)
  have h13: "locate ?env (?req\<lparr>updatedDeps := []\<rparr>)
               (enter (?req\<lparr>updatedDeps := []\<rparr>) (10 - 1) \<lparr>world = ''foo 1.1.0'', trace = ?t4\<rparr>)
              = ((Some ''Cargo.lock'', Some \<lparr>ident = 8, bytes = ''foo 1.1.0''\<rparr>),
                 \<lparr>world = ''foo 1.1.0'', trace = ?t5\<rparr>)"
    by (simp add: run_defs example_defs)
  show ?thesis
    using emptied_request_returns_lock_file [OF h1 _ h4 h5 h6 h7 h8 h9 _ _ h12 h13]
    by simp
qed

text \<open>
  C8, as stated, does not hold: \<^verbatim>\<open>writeLocalFile\<close> is called inside the try block,
  so its failure reaches the same handler as a failure of the resolver. Here the write
  fails with a permission error and the call returns an artifact error.
\<close>

theorem write_failure_counterexample:
  "fst (writeLocalFile
          (example_env (Some ''Cargo.lock'')
             (Inl \<lparr>message = ''EACCES: permission denied'', stderr = None\<rparr>) (\<lambda>w. (Inr (), w)))
          ''Cargo.toml'' ''X'' ''foo 1.0.0'')
     = Inl \<lparr>message = ''EACCES: permission denied'', stderr = None\<rparr>
   \<and> fst (updateArtifacts
          (example_env (Some ''Cargo.lock'')
             (Inl \<lparr>message = ''EACCES: permission denied'', stderr = None\<rparr>) (\<lambda>w. (Inr (), w)))
          (example_request [foo] False) start)
     = Inr (Some [ArtifactError ''Cargo.lock'' ''EACCES: permission denied''])"
  by (simp add: run_defs example_defs updateArtifactsImpl.simps)

text \<open>
  C8, amended. When writing the manifest fails, no command is run. The error is thrown to
  the caller only when its message is \<^verbatim>\<open>TEMPORARY_ERROR\<close>. Any other write error is
  caught: the lock file is read again and, the error's stderr not having the recoverable
  signature, the call returns an artifact error with the lock file's path and the error's
  message, without a retry.
\<close>

theorem write_failure_is_caught:
  assumes "locate env req (enter req n s) = ((Some l, Some c), s2)"
    and "l \<noteq> []"
    and "isLockFileMaintenance (config req) \<or> updatedDeps req \<noteq> []"
    and "writeLocalFile_io env (packageFileName req) (newPackageFileContent req) s2 = (Inl err, s3)"
    and "readLocalFile_utf8_io env l s3 = (nc, s4)"
  shows "(message err = TEMPORARY_ERROR env \<longrightarrow> updateArtifactsImpl env req n s = (Inl err, s3))
       \<and> (message err \<noteq> TEMPORARY_ERROR env \<and> \<not> regEx_test (stderr err) \<longrightarrow>
            updateArtifactsImpl env req n s = (Inr (Some [ArtifactError l (message err)]), s4))
       \<and> trace s4 = trace s @ [Call (updatedDeps req) n, Find (packageFileName req) ''Cargo.lock'',
                               Read l, Write (packageFileName req) (newPackageFileContent req),
                               Read l]"
proof -
  have tb: "tryBlock env req l c s2 = (Inl err, s3)"
    using assms(4) by (simp add: tryBlock_def)
  have "trace s3 = trace s2 @ [Write (packageFileName req) (newPackageFileContent req)]"
    using assms(4) by (auto simp: writeLocalFile_io_def split: prod.splits)
  then have "trace s4 = trace s @ [Call (updatedDeps req) n, Find (packageFileName req) ''Cargo.lock'',
                               Read l, Write (packageFileName req) (newPackageFileContent req),
                               Read l]"
    using locate_trace [OF assms(1)] readLocalFile_utf8_io_trace [OF assms(5)] assms(2)
    by (simp add: enter_def)
  then show ?thesis
    using tb assms(5) by (simp add: impl_after_locate [OF assms(1-3)])
qed

theorem write_failure_is_caught_witness:
  "updateArtifactsImpl
     (example_env (Some ''Cargo.lock'')
        (Inl \<lparr>message = ''EACCES: permission denied'', stderr = None\<rparr>) (\<lambda>w. (Inr (), w)))
     (example_request [foo] False) 10 start
   = (Inr (Some [ArtifactError ''Cargo.lock'' ''EACCES: permission denied'']),
      \<lparr>world = ''foo 1.0.0'',
       trace = [Call [foo] 10, Find ''Cargo.toml'' ''Cargo.lock'', Read ''Cargo.lock'',
                Write ''Cargo.toml'' ''X'', Read ''Cargo.lock'']\<rparr>)"
proof -
  let ?err = "\<lparr>message = ''EACCES: permission denied'', stderr = None\<rparr>"
  let ?env = "example_env (Some ''Cargo.lock'') (Inl ?err) (\<lambda>w. (Inr (), w))"
  let ?req = "example_request [foo] False"
  let ?t2 = "[Call [foo] 10, Find ''Cargo.toml'' ''Cargo.lock'', Read ''Cargo.lock'']"
  let ?t3 = "?t2 @ [Write ''Cargo.toml'' ''X'']"
  let ?t4 = "?t3 @ [Read ''Cargo.lock'']"
  have h1: "locate ?env ?req (enter ?req 10 start)
              = ((Some ''Cargo.lock'', Some \<lparr>ident = 2, bytes = ''foo 1.0.0''\<rparr>),
                 \<lparr>world = ''foo 1.0.0'', trace = ?t2\<rparr>)"
    by (simp add: run_defs example_defs)
  have h4: "isLockFileMaintenance (config ?req) \<or> updatedDeps ?req \<noteq> []"
    by (simp add: example_defs)
  have h5: "writeLocalFile_io ?env (packageFileName ?req) (newPackageFileContent ?req)
              \<lparr>world = ''foo 1.0.0'', trace = ?t2\<rparr>
              = (Inl ?err, \<lparr>world = ''foo 1.0.0'', trace = ?t3\<rparr>)"
    by (simp add: run_defs example_defs)
  have h6: "readLocalFile_utf8_io ?env ''Cargo.lock'' \<lparr>world = ''foo 1.0.0'', trace = ?t3\<rparr>
              = (Some ''foo 1.0.0'', \<lparr>world = ''foo 1.0.0'', trace = ?t4\<rparr>)"
    by (simp add: run_defs example_defs)
  have h7: "message ?err \<noteq> TEMPORARY_ERROR ?env \<and> \<not> regEx_test (stderr ?err)"
    by (simp add: example_defs regEx_test_def)
  show ?thesis
    using write_failure_is_caught [OF h1 _ h4 h5 h6] h7
    by simp
qed

subsection \<open>The resolver strategy\<close>

lemma find_None_iff: "find P xs = None \<longleftrightarrow> (\<forall>x\<in>set xs. \<not> P x)"
  by (induction xs) auto

text \<open>
  C5. The resolver is invoked once, with these commands. In maintenance mode: the single
  update command (without \<^verbatim>\<open>--workspace\<close>). Otherwise, when every upgrade has a
  locked version and the crate datasource: the workspace update command followed by one
  precise command per upgrade, in the order of the upgrades. Otherwise, when some upgrade
  has no locked version or another datasource: the single workspace update command.
\<close>

theorem strategy_selection:
  "(isLockFileMaintenance (config req) \<longrightarrow>
      invokeResolver env req s =
        exec_io env [cargoUpdate_cmd env (packageFileName req) True]
          (execOptions env (constraints_rust (config req))) s)
   \<and> (\<not> isLockFileMaintenance (config req)
        \<and> (\<forall>dep\<in>set (updatedDeps req).
              truthy (lockedVersion dep) \<and> datasource dep = Some (CrateDatasource_id env)) \<longrightarrow>
      invokeResolver env req s =
        exec_io env
          (cargoUpdate_cmd env (packageFileName req) False
             # map (precise_cmd env (packageFileName req)) (updatedDeps req))
          (execOptions env (constraints_rust (config req))) s)
   \<and> (\<not> isLockFileMaintenance (config req)
        \<and> (\<exists>dep\<in>set (updatedDeps req).
              \<not> truthy (lockedVersion dep) \<or> datasource dep \<noteq> Some (CrateDatasource_id env)) \<longrightarrow>
      invokeResolver env req s =
        exec_io env [cargoUpdate_cmd env (packageFileName req) False]
          (execOptions env (constraints_rust (config req))) s)"
proof (intro conjI impI)
  assume "isLockFileMaintenance (config req)"
  then show "invokeResolver env req s =
        exec_io env [cargoUpdate_cmd env (packageFileName req) True]
          (execOptions env (constraints_rust (config req))) s"
    by (simp add: invokeResolver_def cargoUpdate_def)
next
  assume a: "\<not> isLockFileMaintenance (config req)
        \<and> (\<forall>dep\<in>set (updatedDeps req).
              truthy (lockedVersion dep) \<and> datasource dep = Some (CrateDatasource_id env))"
  then have "find (\<lambda>dep. datasource dep \<noteq> Some (CrateDatasource_id env)) (updatedDeps req) = None"
    and "find (\<lambda>dep. \<not> truthy (lockedVersion dep)
                         \<and> datasource dep = Some (CrateDatasource_id env)) (updatedDeps req) = None"
    by (simp_all add: find_None_iff)
  with a show "invokeResolver env req s =
        exec_io env
          (cargoUpdate_cmd env (packageFileName req) False
             # map (precise_cmd env (packageFileName req)) (updatedDeps req))
          (execOptions env (constraints_rust (config req))) s"
    by (simp add: invokeResolver_def cargoUpdatePrecise_def cargoUpdatePrecise_cmds_def
          cargoUpdate_cmd_def)
next
  assume a: "\<not> isLockFileMaintenance (config req)
        \<and> (\<exists>dep\<in>set (updatedDeps req).
              \<not> truthy (lockedVersion dep) \<or> datasource dep \<noteq> Some (CrateDatasource_id env))"
  then have "find (\<lambda>dep. datasource dep \<noteq> Some (CrateDatasource_id env)) (updatedDeps req) \<noteq> None
    \<or> find (\<lambda>dep. \<not> truthy (lockedVersion dep)
                         \<and> datasource dep = Some (CrateDatasource_id env)) (updatedDeps req) \<noteq> None"
    unfolding find_None_iff by blast
  with a show "invokeResolver env req s =
        exec_io env [cargoUpdate_cmd env (packageFileName req) False]
          (execOptions env (constraints_rust (config req))) s"
    by (simp add: invokeResolver_def cargoUpdate_def Let_def)
qed

theorem strategy_selection_witness:
  "trace (snd (invokeResolver (example_env (Some ''Cargo.lock'') (Inr ()) (\<lambda>w. (Inr (), w)))
                 (example_request [foo, bar] True) start))
     = [Exec [''cargo update --config net.git-fetch-with-cli=true --manifest-path Cargo.toml'']
          \<lparr>extraEnv = [], toolConstraints = [(''rust'', None)]\<rparr>]
   \<and> trace (snd (invokeResolver (example_env (Some ''Cargo.lock'') (Inr ()) (\<lambda>w. (Inr (), w)))
                 (example_request [foo, bar] False) start))
     = [Exec [''cargo update --config net.git-fetch-with-cli=true --manifest-path Cargo.toml --workspace'',
              ''cargo update --config net.git-fetch-with-cli=true --manifest-path Cargo.toml --package foo@1.0.0 --precise 1.1.0'',
              ''cargo update --config net.git-fetch-with-cli=true --manifest-path Cargo.toml --package bar@0.2.0 --precise 0.3.0'']
          \<lparr>extraEnv = [], toolConstraints = [(''rust'', None)]\<rparr>]
   \<and> trace (snd (invokeResolver (example_env (Some ''Cargo.lock'') (Inr ()) (\<lambda>w. (Inr (), w)))
                 (example_request [foo, git_dep] False) start))
     = [Exec [''cargo update --config net.git-fetch-with-cli=true --manifest-path Cargo.toml --workspace'']
          \<lparr>extraEnv = [], toolConstraints = [(''rust'', None)]\<rparr>]"
proof -
  let ?env = "example_env (Some ''Cargo.lock'') (Inr ()) (\<lambda>w. (Inr (), w))"
  have m: "isLockFileMaintenance (config (example_request [foo, bar] True))"
    by (simp add: example_defs)
  have p: "\<not> isLockFileMaintenance (config (example_request [foo, bar] False))
        \<and> (\<forall>dep\<in>set (updatedDeps (example_request [foo, bar] False)).
              truthy (lockedVersion dep) \<and> datasource dep = Some (CrateDatasource_id ?env))"
    by (simp add: example_defs bar_def)
  have g: "\<not> isLockFileMaintenance (config (example_request [foo, git_dep] False))
        \<and> (\<exists>dep\<in>set (updatedDeps (example_request [foo, git_dep] False)).
              \<not> truthy (lockedVersion dep) \<or> datasource dep \<noteq> Some (CrateDatasource_id ?env))"
    by (simp add: example_defs git_dep_def)
  have 1: "invokeResolver ?env (example_request [foo, bar] True) start =
        exec_io ?env [cargoUpdate_cmd ?env (packageFileName (example_request [foo, bar] True)) True]
          (execOptions ?env (constraints_rust (config (example_request [foo, bar] True)))) start"
    using strategy_selection [of "example_request [foo, bar] True" ?env start] m by blast
  have 2: "invokeResolver ?env (example_request [foo, bar] False) start =
        exec_io ?env
          (cargoUpdate_cmd ?env (packageFileName (example_request [foo, bar] False)) False
             # map (precise_cmd ?env (packageFileName (example_request [foo, bar] False)))
                 (updatedDeps (example_request [foo, bar] False)))
          (execOptions ?env (constraints_rust (config (example_request [foo, bar] False)))) start"
    using strategy_selection [of "example_request [foo, bar] False" ?env start] p by blast
  have 3: "invokeResolver ?env (example_request [foo, git_dep] False) start =
        exec_io ?env [cargoUpdate_cmd ?env (packageFileName (example_request [foo, git_dep] False)) False]
          (execOptions ?env (constraints_rust (config (example_request [foo, git_dep] False)))) start"
    using strategy_selection [of "example_request [foo, git_dep] False" ?env start] g by blast
  show ?thesis
    unfolding 1 2 3
    by (simp add: exec_io_def execOptions_def cargoUpdate_cmd_def precise_cmd_def
          example_defs bar_def git_dep_def)
qed

subsection \<open>Filtering the upgrades\<close>

lemma in_coerceArray_iff: "v \<in> set (coerceArray x) \<longleftrightarrow> (\<exists>vs. x = Some vs \<and> v \<in> set vs)"
  by (cases x) auto

text \<open>
  C10. The filter removes exactly the upgrades whose new version is among the versions
  that the extracted map gives for their package name. An upgrade stays when the
  extraction is null, when it has no package name, or when the map has no entry for its
  package name; and the upgrades that stay keep their order.
\<close>

theorem filter_keeps_what_is_not_locked_yet:
  "(dep \<in> set (filterUpdatedDeps env content deps) \<longleftrightarrow>
      dep \<in> set deps
      \<and> \<not> (\<exists>m p vs v. extractLockFileContentVersions env content = Some m
              \<and> packageName dep = Some p \<and> m p = Some vs
              \<and> newVersion dep = Some v \<and> v \<in> set vs))
   \<and> (dep \<in> set deps
        \<and> (case extractLockFileContentVersions env content of
              None \<Rightarrow> True
            | Some m \<Rightarrow> (case packageName dep of None \<Rightarrow> True | Some p \<Rightarrow> m p = None)) \<longrightarrow>
      dep \<in> set (filterUpdatedDeps env content deps))
   \<and> subseq (filterUpdatedDeps env content deps) deps"
  by (auto simp: filterUpdatedDeps_def in_coerceArray_iff split: option.splits)

theorem filter_keeps_what_is_not_locked_yet_witness:
  "filterUpdatedDeps (example_env (Some ''Cargo.lock'') (Inr ()) (\<lambda>w. (Inr (), w)))
     ''foo 1.1.0'' [foo, bar] = [bar]"
proof -
  let ?env = "example_env (Some ''Cargo.lock'') (Inr ()) (\<lambda>w. (Inr (), w))"
  have b: "bar \<in> set [foo, bar]
        \<and> (case extractLockFileContentVersions ?env ''foo 1.1.0'' of
              None \<Rightarrow> True
            | Some m \<Rightarrow> (case packageName bar of None \<Rightarrow> True | Some p \<Rightarrow> m p = None))"
    by (simp add: example_defs bar_def)
  have f: "\<exists>m p vs v. extractLockFileContentVersions ?env ''foo 1.1.0'' = Some m
              \<and> packageName foo = Some p \<and> m p = Some vs
              \<and> newVersion foo = Some v \<and> v \<in> set vs"
    by (simp add: example_defs)
  have "bar \<in> set (filterUpdatedDeps ?env ''foo 1.1.0'' [foo, bar])"
    using filter_keeps_what_is_not_locked_yet [of bar ?env "''foo 1.1.0''" "[foo, bar]"] b
    by blast
  moreover have "foo \<notin> set (filterUpdatedDeps ?env ''foo 1.1.0'' [foo, bar])"
    using filter_keeps_what_is_not_locked_yet [of foo ?env "''foo 1.1.0''" "[foo, bar]"] f
    by blast
  moreover have "subseq (filterUpdatedDeps ?env ''foo 1.1.0'' [foo, bar]) [foo, bar]"
    using filter_keeps_what_is_not_locked_yet [of foo ?env "''foo 1.1.0''" "[foo, bar]"]
    by blast
  ultimately show ?thesis
    by (simp add: filterUpdatedDeps_def example_defs bar_def)
qed

subsection \<open>Retries narrow the request\<close>

text \<open>
  C2. In the trace of any call, the first entry of \<^verbatim>\<open>updateArtifactsImpl\<close> is the
  call itself, and each later entry follows an entry whose budget was positive, has that
  budget less one, and has fewer upgrades, a strict subset of the earlier ones. And after a failure that is not fatal,
  the call recurses, with the filtered upgrades and the budget less one, exactly when the
  budget is positive, the lock file read again is not empty, the stderr has the signature
  and the filtered list is shorter; otherwise it returns an artifact error.
\<close>

theorem retries_narrow_the_request:
  "(\<exists>evs. trace (snd (updateArtifactsImpl env req n s)) = trace s @ evs
          \<and> calls evs \<noteq> [] \<and> hd (calls evs) = (updatedDeps req, n)
          \<and> successively narrows (calls evs))
   \<and> (locate env req (enter req n s) = ((Some l, Some c), s2) \<and> l \<noteq> []
        \<and> (isLockFileMaintenance (config req) \<or> updatedDeps req \<noteq> [])
        \<and> tryBlock env req l c s2 = (Inl err, s3) \<and> message err \<noteq> TEMPORARY_ERROR env
        \<and> readLocalFile_utf8_io env l s3 = (nc, s4) \<longrightarrow>
      updateArtifactsImpl env req n s =
        (if 0 < n \<and> truthy nc \<and> regEx_test (stderr err)
            \<and> length (filterUpdatedDeps env (the nc) (updatedDeps req)) < length (updatedDeps req)
         then updateArtifactsImpl env
                (req\<lparr>updatedDeps := filterUpdatedDeps env (the nc) (updatedDeps req)\<rparr>) (n - 1) s4
         else (Inr (Some [ArtifactError l (message err)]), s4)))"
proof (intro conjI impI)
  show "\<exists>evs. trace (snd (updateArtifactsImpl env req n s)) = trace s @ evs
          \<and> calls evs \<noteq> [] \<and> hd (calls evs) = (updatedDeps req, n)
          \<and> successively narrows (calls evs)"
    using impl_calls [of env req n s] by blast
next
  assume a: "locate env req (enter req n s) = ((Some l, Some c), s2) \<and> l \<noteq> []
        \<and> (isLockFileMaintenance (config req) \<or> updatedDeps req \<noteq> [])
        \<and> tryBlock env req l c s2 = (Inl err, s3) \<and> message err \<noteq> TEMPORARY_ERROR env
        \<and> readLocalFile_utf8_io env l s3 = (nc, s4)"
  then have "updateArtifactsImpl env req n s =
     (case tryBlock env req l c s2 of
        (Inr r, s3) \<Rightarrow> (Inr r, s3)
      | (Inl err, s3) \<Rightarrow>
          if message err = TEMPORARY_ERROR env then (Inl err, s3)
          else
            (case readLocalFile_utf8_io env l s3 of
               (nc, s4) \<Rightarrow>
                 if 0 < n \<and> truthy nc \<and> regEx_test (stderr err)
                    \<and> length (filterUpdatedDeps env (the nc) (updatedDeps req))
                        < length (updatedDeps req)
                 then updateArtifactsImpl env
                        (req\<lparr>updatedDeps := filterUpdatedDeps env (the nc) (updatedDeps req)\<rparr>)
                        (n - 1) s4
                 else (Inr (Some [ArtifactError l (message err)]), s4)))"
    by (intro impl_after_locate) simp_all
  with a show "updateArtifactsImpl env req n s =
        (if 0 < n \<and> truthy nc \<and> regEx_test (stderr err)
            \<and> length (filterUpdatedDeps env (the nc) (updatedDeps req)) < length (updatedDeps req)
         then updateArtifactsImpl env
                (req\<lparr>updatedDeps := filterUpdatedDeps env (the nc) (updatedDeps req)\<rparr>) (n - 1) s4
         else (Inr (Some [ArtifactError l (message err)]), s4))"
    by simp
qed

lemma foo_neq_bar: "foo \<noteq> bar"
  by (simp add: foo_def bar_def)

theorem retries_narrow_the_request_witness:
  "fst (updateArtifactsImpl
          (example_env (Some ''Cargo.lock'') (Inr ()) (\<lambda>w. (Inl conflict, ''foo 1.1.0'')))
          (example_request [foo, bar] False) 10 start)
     = Inr (Some [ArtifactError ''Cargo.lock'' ''Command failed: cargo update''])
   \<and> calls (trace (snd (updateArtifactsImpl
          (example_env (Some ''Cargo.lock'') (Inr ()) (\<lambda>w. (Inl conflict, ''foo 1.1.0'')))
          (example_request [foo, bar] False) 10 start)))
     = [([foo, bar], 10), ([bar], 9)]
   \<and> successively narrows [([foo, bar], 10), ([bar], 9)]"
proof -
  let ?env = "example_env (Some ''Cargo.lock'') (Inr ()) (\<lambda>w. (Inl conflict, ''foo 1.1.0''))"
  let ?req = "example_request [foo, bar] False"
  let ?opts = "\<lparr>extraEnv = [], toolConstraints = [(''rust'', None)]\<rparr>"
  let ?t2 = "[Call [foo, bar] 10, Find ''Cargo.toml'' ''Cargo.lock'', Read ''Cargo.lock'']"
  let ?t3 = "?t2 @ [Write ''Cargo.toml'' ''X'',
                    Exec (cargoUpdatePrecise_cmds ?env ''Cargo.toml'' [foo, bar]) ?opts]"
  let ?t4 = "?t3 @ [Read ''Cargo.lock'']"
  have h: "locate ?env ?req (enter ?req 10 start)
              = ((Some ''Cargo.lock'', Some \<lparr>ident = 2, bytes = ''foo 1.0.0''\<rparr>),
                 \<lparr>world = ''foo 1.0.0'', trace = ?t2\<rparr>)
        \<and> ''Cargo.lock'' \<noteq> []
        \<and> (isLockFileMaintenance (config ?req) \<or> updatedDeps ?req \<noteq> [])
        \<and> tryBlock ?env ?req ''Cargo.lock'' \<lparr>ident = 2, bytes = ''foo 1.0.0''\<rparr>
              \<lparr>world = ''foo 1.0.0'', trace = ?t2\<rparr>
              = (Inl conflict, \<lparr>world = ''foo 1.1.0'', trace = ?t3\<rparr>)
        \<and> message conflict \<noteq> TEMPORARY_ERROR ?env
        \<and> readLocalFile_utf8_io ?env ''Cargo.lock'' \<lparr>world = ''foo 1.1.0'', trace = ?t3\<rparr>
              = (Some ''foo 1.1.0'', \<lparr>world = ''foo 1.1.0'', trace = ?t4\<rparr>)"
    by (simp add: run_defs example_defs execOptions_def bar_def)
  have f: "filterUpdatedDeps ?env ''foo 1.1.0'' [foo, bar] = [bar]"
    by (simp add: filterUpdatedDeps_def example_defs bar_def)
  have step: "updateArtifactsImpl ?env ?req 10 start
                = updateArtifactsImpl ?env (?req\<lparr>updatedDeps := [bar]\<rparr>) 9
                    \<lparr>world = ''foo 1.1.0'', trace = ?t4\<rparr>"
    using retries_narrow_the_request [of ?env ?req 10 start "''Cargo.lock''"
            "\<lparr>ident = 2, bytes = ''foo 1.0.0''\<rparr>"
            "\<lparr>world = ''foo 1.0.0'', trace = ?t2\<rparr>" conflict
            "\<lparr>world = ''foo 1.1.0'', trace = ?t3\<rparr>" "Some ''foo 1.1.0''"
            "\<lparr>world = ''foo 1.1.0'', trace = ?t4\<rparr>"] h f
    by (simp add: example_request_def regEx_test_def conflict_def)
  have rest: "fst (updateArtifactsImpl ?env (?req\<lparr>updatedDeps := [bar]\<rparr>) 9
                    \<lparr>world = ''foo 1.1.0'', trace = ?t4\<rparr>)
               = Inr (Some [ArtifactError ''Cargo.lock'' ''Command failed: cargo update''])
             \<and> calls (trace (snd (updateArtifactsImpl ?env (?req\<lparr>updatedDeps := [bar]\<rparr>) 9
                    \<lparr>world = ''foo 1.1.0'', trace = ?t4\<rparr>)))
               = [([foo, bar], 10), ([bar], 9)]"
    by (simp add: updateArtifactsImpl.simps run_defs example_defs bar_def)
  have "successively narrows [([foo, bar], 10), ([bar], 9)]"
    using foo_neq_bar by (auto simp: narrows_def)
  with step rest show ?thesis by simp
qed

subsection \<open>A resolver that always fails\<close>










end
